theory Spec2Isabelle
  imports Complex_Main "HOL-Library.Word"
begin

section \<open>The Meta Pixel tracking utility (src/utils/pixelTracking.js)\<close>

text \<open>
  The module keeps one piece of state, \<^verbatim>\<open>window._lastContactTrackTime\<close>, and
  talks to its surroundings through the console, the tracking hook \<^verbatim>\<open>window.fbq\<close>,
  the methods of a click event, a timer and \<^verbatim>\<open>window.location.href\<close>. Every one of
  these is an entry of an ordered effect trace, so that "before" and "exactly once" are
  statements about a list. Arguments have the types the module documents: a number, strings,
  and an event that may be missing and may lack either method.
\<close>

subsection \<open>Strings\<close>

text \<open>
  A JavaScript string is a sequence of 16-bit code units. A regular expression without
  the \<^verbatim>\<open>u\<close> flag matches code unit by code unit.
\<close>

type_synonym code_unit = "16 word"
type_synonym jsstring = "code_unit list"

definition js :: "string \<Rightarrow> jsstring" where
  "js s = map of_char s"

subsection \<open>Numbers and \<^verbatim>\<open>Number.prototype.toFixed\<close>\<close>

text \<open>
  A Number is NaN, an infinity or a finite double. Every finite double is a rational,
  and \<^verbatim>\<open>toFixed\<close> is defined by ECMA-262 on that exact value, so a finite Number
  carries it as a \<^typ>\<open>rat\<close> (negative zero reads as 0: \<^verbatim>\<open>toFixed\<close> does not
  tell them apart).
\<close>

datatype jsnum = NaN | PosInfinity | NegInfinity | Finite rat

datatype error = TypeError | RangeError

text \<open>The decimal digits of a natural number, most significant first; 0 is "0".\<close>

definition digit :: "nat \<Rightarrow> code_unit" where
  "digit d = of_nat (48 + d)"

fun decimal_digits :: "nat \<Rightarrow> jsstring" where
  "decimal_digits n =
     (if n < 10 then [digit n] else decimal_digits (n div 10) @ [digit (n mod 10)])"

declare decimal_digits.simps [simp del]

text \<open>
  \<^verbatim>\<open>x.toFixed(f)\<close>, step by step as in ECMA-262 (21.1.3.3): a RangeError for a
  digit count outside 0..100; the default string of a value that is not finite; the
  sign; the default string again for a magnitude of at least \<open>10^21\<close>; otherwise the
  integer \<open>n\<close> with \<open>n / 10^f\<close> nearest to the magnitude (the larger one on a tie),
  its digits padded with zeros to \<open>f + 1\<close> places, and the point before the last
  \<open>f\<close>. The default string of a large finite value (\<^verbatim>\<open>Number::toString\<close>, the
  shortest digits that read back as the same double) depends on the binary format and
  is a parameter.
\<close>

definition point_before_last :: "nat \<Rightarrow> jsstring \<Rightarrow> jsstring" where
  "point_before_last f m =
     (let k = length m;
          m = (if k \<le> f then replicate (f + 1 - k) (digit 0) @ m else m);
          k = length m
      in take (k - f) m @ js ''.'' @ drop (k - f) m)"

definition toFixed :: "(rat \<Rightarrow> jsstring) \<Rightarrow> jsnum \<Rightarrow> nat \<Rightarrow> error + jsstring" where
  "toFixed Number_toString x f =
     (if 100 < f then Inl RangeError
      else case x of
        NaN \<Rightarrow> Inr (js ''NaN'')
      | PosInfinity \<Rightarrow> Inr (js ''Infinity'')
      | NegInfinity \<Rightarrow> Inr (js ''-Infinity'')
      | Finite q \<Rightarrow>
          (let s = (if q < 0 then js ''-'' else []);
               a = (if q < 0 then - q else q)
           in if 10 ^ 21 \<le> a then Inr (s @ Number_toString a)
              else
                (let n = nat \<lfloor>a * 10 ^ f + 1 / 2\<rfloor>;
                     m = decimal_digits n
                 in Inr (s @ (if f \<noteq> 0 then point_before_last f m else m)))))"

subsection \<open>The regular expression \<^verbatim>\<open>/[\s-()]/g\<close> and \<^verbatim>\<open>String.prototype.replace\<close>\<close>

text \<open>
  \<^verbatim>\<open>\s\<close> matches the WhiteSpace and LineTerminator code points of ECMA-262: TAB, VT, FF,
  SP, NBSP, ZWNBSP, the other space separators (U+1680, U+2000 to U+200A, U+202F, U+205F,
  U+3000), and LF, CR, U+2028, U+2029.
\<close>

definition WhiteSpace :: "code_unit \<Rightarrow> bool" where
  "WhiteSpace c \<longleftrightarrow>
     c = 0x0009 \<or> c = 0x000B \<or> c = 0x000C \<or> c = 0x0020 \<or> c = 0x00A0 \<or> c = 0xFEFF \<or>
     c = 0x1680 \<or> (0x2000 \<le> c \<and> c \<le> 0x200A) \<or> c = 0x202F \<or> c = 0x205F \<or> c = 0x3000"

definition LineTerminator :: "code_unit \<Rightarrow> bool" where
  "LineTerminator c \<longleftrightarrow> c = 0x000A \<or> c = 0x000D \<or> c = 0x2028 \<or> c = 0x2029"

text \<open>
  The members of a character class. In \<^verbatim>\<open>[\s-()]\<close> the hyphen follows a class
  escape, so (without the \<^verbatim>\<open>u\<close> flag) it is no range but the character itself:
  the class is \<^verbatim>\<open>\s\<close>, \<^verbatim>\<open>-\<close>, \<^verbatim>\<open>(\<close> and \<^verbatim>\<open>)\<close>.
\<close>

datatype class_atom = ClassEscape_s | ClassChar code_unit

fun atom_matches :: "class_atom \<Rightarrow> code_unit \<Rightarrow> bool" where
  "atom_matches ClassEscape_s c = (WhiteSpace c \<or> LineTerminator c)"
| "atom_matches (ClassChar d) c = (c = d)"

definition class_matches :: "class_atom list \<Rightarrow> code_unit \<Rightarrow> bool" where
  "class_matches atoms c = list_ex (\<lambda>a. atom_matches a c) atoms"

definition phone_separators :: "class_atom list" where
  "phone_separators =
     [ClassEscape_s, ClassChar (of_char CHR ''-''), ClassChar (of_char CHR ''(''),
      ClassChar (of_char CHR '')'')]"

text \<open>
  \<^verbatim>\<open>str.replace(/[...]/g, replacement)\<close> for a one-character class and a replacement
  without \<^verbatim>\<open>$\<close>: scan from the left, put the replacement for every match, keep
  every other code unit.
\<close>

fun replace_global :: "class_atom list \<Rightarrow> jsstring \<Rightarrow> jsstring \<Rightarrow> jsstring" where
  "replace_global atoms replacement [] = []"
| "replace_global atoms replacement (c # cs) =
     (if class_matches atoms c then replacement @ replace_global atoms replacement cs
      else c # replace_global atoms replacement cs)"

subsection \<open>The window, the event and the effects\<close>

text \<open>
  What \<^verbatim>\<open>typeof x === 'function'\<close> can find in a property: nothing, a function, or
  some other value. Calling a property that holds no function is a TypeError.
\<close>

datatype property = Undefined | Function | NonFunction

definition typeof_function :: "property \<Rightarrow> bool" where
  "typeof_function p \<longleftrightarrow> p = Function"

text \<open>
  \<open>lastContactTrackTime\<close> is \<^verbatim>\<open>window._lastContactTrackTime\<close> (\<open>None\<close>: never
  assigned); \<open>fbq\<close> is what \<^verbatim>\<open>window.fbq\<close> holds; \<open>checkPixelStatus_property\<close>
  is where the module installs its debugging helper when it is loaded.
\<close>

record window =
  lastContactTrackTime :: "int option"
  fbq :: property
  location_href :: jsstring
  checkPixelStatus_property :: property

text \<open>The click event, as far as the code looks at it: two methods it may or may not have.\<close>

record dom_event =
  preventDefault :: property
  stopPropagation :: property

record payload =
  payload_value :: jsstring
  payload_currency :: jsstring

text \<open>The console lines, by their template and the values put into it.\<close>

datatype message =
    PreventedMsg int
  | ManualTrackMsg jsstring jsstring
  | FbqNotFoundMsg
  | HandlePhoneCallMsg jsstring
  | RedirectingMsg jsstring
  | StatusHeaderMsg
  | FbqAvailableMsg bool
  | LastTrackTimeMsg int
  | GlobalGuardMsg "int option"
  | StatusFooterMsg

text \<open>The timer's callback: \<^verbatim>\<open>() => { window.location.href = `tel:${cleanNumber}` }\<close>.\<close>

datatype callback = SetLocationHref jsstring

datatype effect =
    ConsoleLog message
  | ConsoleWarn message
  | ConsoleError message
  | Fbq jsstring jsstring payload
  | PreventDefault
  | StopPropagation
  | SetTimeout callback nat

type_synonym outcome = "error + (window \<times> effect list)"
type_synonym statement = "window \<Rightarrow> outcome"

text \<open>
  Statements run in order; an exception ends the block and is the block's outcome, as
  no statement of the module catches one. Calling a property is a TypeError unless it
  holds a function. In this reading a function that is called returns: the hook's
  contract is \<^verbatim>\<open>(action, eventName, params) => void\<close>, and the event's methods are
  the browser's. The reading in which either may throw comes after it, under
  "Functions that throw".
\<close>

definition emit :: "effect \<Rightarrow> statement" where
  "emit eff w = Inr (w, [eff])"

definition skip :: statement where
  "skip w = Inr (w, [])"

definition call :: "property \<Rightarrow> effect \<Rightarrow> statement" where
  "call p eff w = (if p = Function then Inr (w, [eff]) else Inl TypeError)"

definition seq :: "outcome \<Rightarrow> statement \<Rightarrow> outcome" where
  "seq r k =
     (case r of
        Inl err \<Rightarrow> Inl err
      | Inr (w, effs) \<Rightarrow>
          (case k w of
             Inl err \<Rightarrow> Inl err
           | Inr (w', effs') \<Rightarrow> Inr (w', effs @ effs')))"

fun block :: "statement list \<Rightarrow> statement" where
  "block [] w = Inr (w, [])"
| "block (s # ss) w = seq (s w) (block ss)"

subsection \<open>The module\<close>

definition getGlobalLastTrackTime :: "window \<Rightarrow> int" where
  "getGlobalLastTrackTime w =
     (case lastContactTrackTime w of
        None \<Rightarrow> 0
      | Some t \<Rightarrow> (if t = 0 then 0 else t))"

definition setGlobalLastTrackTime :: "int \<Rightarrow> statement" where
  "setGlobalLastTrackTime time w = Inr (w\<lparr>lastContactTrackTime := Some time\<rparr>, [])"

definition TRACK_DEBOUNCE_MS :: int where
  "TRACK_DEBOUNCE_MS = 1000"

text \<open>
  \<^verbatim>\<open>trackContactEvent(value = 1.00, currency = 'USD')\<close>. An argument left out is
  \<open>None\<close> and takes its default. \<open>currentTime\<close> is what \<^verbatim>\<open>Date.now()\<close> returns
  in this call. The hook is called for its effect only: the module never looks at what
  it returns, and the trace records the call.
\<close>

definition trackContactEvent ::
  "(rat \<Rightarrow> jsstring) \<Rightarrow> int \<Rightarrow> jsnum option \<Rightarrow> jsstring option \<Rightarrow> statement" where
  "trackContactEvent Number_toString currentTime value_arg currency_arg w =
     (let value = (case value_arg of None \<Rightarrow> Finite 1 | Some v \<Rightarrow> v);
          currency = (case currency_arg of None \<Rightarrow> js ''USD'' | Some c \<Rightarrow> c);
          lastTrackTime = getGlobalLastTrackTime w
      in if currentTime - lastTrackTime < TRACK_DEBOUNCE_MS
         then emit (ConsoleWarn (PreventedMsg (currentTime - lastTrackTime))) w
         else if typeof_function (fbq w)
         then block
                [(\<lambda>w. case toFixed Number_toString value 2 of
                        Inl err \<Rightarrow> Inl err
                      | Inr shown \<Rightarrow> emit (ConsoleLog (ManualTrackMsg shown currency)) w),
                 (\<lambda>w. case toFixed Number_toString value 2 of
                        Inl err \<Rightarrow> Inl err
                      | Inr shown \<Rightarrow>
                          call (fbq w)
                            (Fbq (js ''track'') (js ''Contact'')
                               \<lparr>payload_value = shown, payload_currency = currency\<rparr>) w),
                 setGlobalLastTrackTime currentTime] w
         else emit (ConsoleError FbqNotFoundMsg) w)"

text \<open>
  \<^verbatim>\<open>handlePhoneCall(phoneNumber, e = null)\<close>. \<open>e\<close> is \<open>None\<close> when the argument is
  left out, null or otherwise falsy.
\<close>

definition handlePhoneCall ::
  "(rat \<Rightarrow> jsstring) \<Rightarrow> int \<Rightarrow> jsstring \<Rightarrow> dom_event option \<Rightarrow> statement" where
  "handlePhoneCall Number_toString currentTime phoneNumber e =
     block
       [emit (ConsoleLog (HandlePhoneCallMsg phoneNumber)),
        (case e of
           None \<Rightarrow> skip
         | Some ev \<Rightarrow>
             block
               [if typeof_function (preventDefault ev)
                then call (preventDefault ev) PreventDefault else skip,
                if typeof_function (stopPropagation ev)
                then call (stopPropagation ev) StopPropagation else skip]),
        trackContactEvent Number_toString currentTime None None,
        (let cleanNumber = replace_global phone_separators [] phoneNumber
         in block
              [emit (ConsoleLog (RedirectingMsg cleanNumber)),
               emit (SetTimeout (SetLocationHref (js ''tel:'' @ cleanNumber)) 100)])]"

text \<open>The timer's callback, when it runs.\<close>

fun run_callback :: "callback \<Rightarrow> statement" where
  "run_callback (SetLocationHref url) w = Inr (w\<lparr>location_href := url\<rparr>, [])"

text \<open>
  \<^verbatim>\<open>window.checkPixelStatus()\<close>: five console lines and the returned string. The
  time of day it prints is the locale's rendering of the stored time, which the message
  carries as the number.
\<close>

definition checkPixelStatus :: "window \<Rightarrow> error + (jsstring \<times> window \<times> effect list)" where
  "checkPixelStatus w =
     (case block
             [emit (ConsoleLog StatusHeaderMsg),
              emit (ConsoleLog (FbqAvailableMsg (typeof_function (fbq w)))),
              emit (ConsoleLog (LastTrackTimeMsg (getGlobalLastTrackTime w))),
              emit (ConsoleLog (GlobalGuardMsg (lastContactTrackTime w))),
              emit (ConsoleLog StatusFooterMsg)] w of
        Inl err \<Rightarrow> Inl err
      | Inr (w', effs) \<Rightarrow> Inr (js ''Check complete'', w', effs))"

text \<open>
  Loading the module: where a window exists (\<open>Some\<close>), the helper is installed on it.
\<close>

definition load_module :: "window option \<Rightarrow> window option" where
  "load_module global =
     (case global of
        None \<Rightarrow> None
      | Some w \<Rightarrow> Some (w\<lparr>checkPixelStatus_property := Function\<rparr>))"

text \<open>A page that has just loaded: nothing tracked yet, nowhere to go.\<close>

definition fresh_window :: "property \<Rightarrow> window" where
  "fresh_window hook =
     \<lparr>lastContactTrackTime = None, fbq = hook, location_href = [],
      checkPixelStatus_property = Function\<rparr>"

subsection \<open>Sequences of operations\<close>

text \<open>
  What can happen to a page, one after the other: a call of either public function (with
  the clock's reading at that moment), a call of the debugging helper, a timer running its
  callback, and the page's scripts installing or removing the hook.
\<close>

datatype operation =
    TrackContactEvent int "jsnum option" "jsstring option"
  | HandlePhoneCall int jsstring "dom_event option"
  | CheckPixelStatus
  | TimerFires callback
  | PageSetsFbq property

fun perform :: "(rat \<Rightarrow> jsstring) \<Rightarrow> operation \<Rightarrow> statement" where
  "perform Number_toString (TrackContactEvent currentTime value_arg currency_arg) w =
     trackContactEvent Number_toString currentTime value_arg currency_arg w"
| "perform Number_toString (HandlePhoneCall currentTime phoneNumber e) w =
     handlePhoneCall Number_toString currentTime phoneNumber e w"
| "perform Number_toString CheckPixelStatus w =
     (case checkPixelStatus w of
        Inl err \<Rightarrow> Inl err
      | Inr (r, w', effs) \<Rightarrow> Inr (w', effs))"
| "perform Number_toString (TimerFires cb) w = run_callback cb w"
| "perform Number_toString (PageSetsFbq hook) w = Inr (w\<lparr>fbq := hook\<rparr>, [])"

definition run :: "(rat \<Rightarrow> jsstring) \<Rightarrow> operation list \<Rightarrow> statement" where
  "run Number_toString ops = block (map (perform Number_toString) ops)"

text \<open>
  A sequence of calls to the tracker, each with what \<^verbatim>\<open>window.fbq\<close> holds and what
  the clock reads when it is made; the result keeps the effects of each call apart.
\<close>

record tracker_call =
  hook_then :: property
  clock_then :: int
  value_given :: "jsnum option"
  currency_given :: "jsstring option"

fun tracker_calls ::
  "(rat \<Rightarrow> jsstring) \<Rightarrow> tracker_call list \<Rightarrow> window \<Rightarrow> error + (window \<times> effect list list)" where
  "tracker_calls Number_toString [] w = Inr (w, [])"
| "tracker_calls Number_toString (c # cs) w =
     (case trackContactEvent Number_toString (clock_then c) (value_given c) (currency_given c)
             (w\<lparr>fbq := hook_then c\<rparr>) of
        Inl err \<Rightarrow> Inl err
      | Inr (w', effs) \<Rightarrow>
          (case tracker_calls Number_toString cs w' of
             Inl err \<Rightarrow> Inl err
           | Inr (w'', traces) \<Rightarrow> Inr (w'', effs # traces)))"

subsection \<open>The vocabulary of the specification\<close>

text \<open>A dispatch is a call of the tracking hook; a scheduled task is a timer that was set.\<close>

fun is_dispatch :: "effect \<Rightarrow> bool" where
  "is_dispatch (Fbq action eventName params) = True"
| "is_dispatch other = False"

definition dispatches :: "effect list \<Rightarrow> effect list" where
  "dispatches effs = filter is_dispatch effs"

definition dispatch_counts :: "effect list list \<Rightarrow> nat list" where
  "dispatch_counts traces = map (\<lambda>effs. length (dispatches effs)) traces"

fun is_timer :: "effect \<Rightarrow> bool" where
  "is_timer (SetTimeout cb delay) = True"
| "is_timer other = False"

text \<open>
  The dialable string in the specification's words: the phone number without its
  whitespace and without the characters \<^verbatim>\<open>-\<close>, \<^verbatim>\<open>(\<close> and \<^verbatim>\<open>)\<close>.
\<close>

definition dialable :: "jsstring \<Rightarrow> jsstring" where
  "dialable phoneNumber =
     filter (\<lambda>c. \<not> (WhiteSpace c \<or> LineTerminator c) \<and>
                 c \<noteq> of_char CHR ''-'' \<and> c \<noteq> of_char CHR ''('' \<and> c \<noteq> of_char CHR '')'')
       phoneNumber"

text \<open>
  What the specification's first step does to the event: each of the two methods is
  invoked when the event is there and has it, \<^verbatim>\<open>preventDefault\<close> first.
\<close>

definition event_effects :: "dom_event option \<Rightarrow> effect list" where
  "event_effects e =
     (case e of
        None \<Rightarrow> []
      | Some ev \<Rightarrow>
          (if preventDefault ev = Function then [PreventDefault] else []) @
          (if stopPropagation ev = Function then [StopPropagation] else []))"

text \<open>Clock readings in which each is at least 1000 ms after the one before.\<close>

fun spaced :: "int list \<Rightarrow> bool" where
  "spaced [] = True"
| "spaced [t] = True"
| "spaced (t # u # rest) = (1000 \<le> u - t \<and> spaced (u # rest))"


subsection \<open>Functions that throw\<close>

text \<open>
  So far a function that is called returns. The module has no \<^verbatim>\<open>try\<close> of its own,
  so what a function it calls does is the caller's to see: here it is a parameter, for the
  hook and for each method of the event, and an operation ends with the window, the
  effects up to that point, and the exception, if any, that leaves it. A call that throws
  has been made: it is in the trace.
\<close>

datatype callee = Returns | Throws

record callees =
  fbq_does :: callee
  preventDefault_does :: callee
  stopPropagation_does :: callee

text \<open>An exception is the module's own (\<open>OwnError\<close>) or one a called function threw.\<close>

datatype exception = OwnError error | CalleeThrew

type_synonym ending = "window \<times> effect list \<times> exception option"
type_synonym step = "window \<Rightarrow> ending"

definition emit_step :: "effect \<Rightarrow> step" where
  "emit_step eff w = (w, [eff], None)"

definition skip_step :: step where
  "skip_step w = (w, [], None)"

definition call_step :: "callee \<Rightarrow> property \<Rightarrow> effect \<Rightarrow> step" where
  "call_step does p eff w =
     (if p = Function
      then (w, [eff], (case does of Returns \<Rightarrow> None | Throws \<Rightarrow> Some CalleeThrew))
      else (w, [], Some (OwnError TypeError)))"

definition seq_step :: "ending \<Rightarrow> step \<Rightarrow> ending" where
  "seq_step r k =
     (case r of
        (w, effs, Some exn) \<Rightarrow> (w, effs, Some exn)
      | (w, effs, None) \<Rightarrow>
          (case k w of (w', effs', x) \<Rightarrow> (w', effs @ effs', x)))"

fun steps :: "step list \<Rightarrow> step" where
  "steps [] w = (w, [], None)"
| "steps (s # ss) w = seq_step (s w) (steps ss)"

definition setGlobalLastTrackTime_step :: "int \<Rightarrow> step" where
  "setGlobalLastTrackTime_step time w = (w\<lparr>lastContactTrackTime := Some time\<rparr>, [], None)"

text \<open>
  \<^verbatim>\<open>trackContactEvent\<close> and \<^verbatim>\<open>handlePhoneCall\<close> again, statement for statement, with
  what the called functions do.
\<close>

definition trackContactEvent_with ::
  "callee \<Rightarrow> (rat \<Rightarrow> jsstring) \<Rightarrow> int \<Rightarrow> jsnum option \<Rightarrow> jsstring option \<Rightarrow> step" where
  "trackContactEvent_with hook_does Number_toString currentTime value_arg currency_arg w =
     (let value = (case value_arg of None \<Rightarrow> Finite 1 | Some v \<Rightarrow> v);
          currency = (case currency_arg of None \<Rightarrow> js ''USD'' | Some c \<Rightarrow> c);
          lastTrackTime = getGlobalLastTrackTime w
      in if currentTime - lastTrackTime < TRACK_DEBOUNCE_MS
         then emit_step (ConsoleWarn (PreventedMsg (currentTime - lastTrackTime))) w
         else if typeof_function (fbq w)
         then steps
                [(\<lambda>w. case toFixed Number_toString value 2 of
                        Inl err \<Rightarrow> (w, [], Some (OwnError err))
                      | Inr shown \<Rightarrow> emit_step (ConsoleLog (ManualTrackMsg shown currency)) w),
                 (\<lambda>w. case toFixed Number_toString value 2 of
                        Inl err \<Rightarrow> (w, [], Some (OwnError err))
                      | Inr shown \<Rightarrow>
                          call_step hook_does (fbq w)
                            (Fbq (js ''track'') (js ''Contact'')
                               \<lparr>payload_value = shown, payload_currency = currency\<rparr>) w),
                 setGlobalLastTrackTime_step currentTime] w
         else emit_step (ConsoleError FbqNotFoundMsg) w)"

definition handlePhoneCall_with ::
  "callees \<Rightarrow> (rat \<Rightarrow> jsstring) \<Rightarrow> int \<Rightarrow> jsstring \<Rightarrow> dom_event option \<Rightarrow> step" where
  "handlePhoneCall_with does Number_toString currentTime phoneNumber e =
     steps
       [emit_step (ConsoleLog (HandlePhoneCallMsg phoneNumber)),
        (case e of
           None \<Rightarrow> skip_step
         | Some ev \<Rightarrow>
             steps
               [if typeof_function (preventDefault ev)
                then call_step (preventDefault_does does) (preventDefault ev) PreventDefault
                else skip_step,
                if typeof_function (stopPropagation ev)
                then call_step (stopPropagation_does does) (stopPropagation ev) StopPropagation
                else skip_step]),
        trackContactEvent_with (fbq_does does) Number_toString currentTime None None,
        (let cleanNumber = replace_global phone_separators [] phoneNumber
         in steps
              [emit_step (ConsoleLog (RedirectingMsg cleanNumber)),
               emit_step (SetTimeout (SetLocationHref (js ''tel:'' @ cleanNumber)) 100)])]"

text \<open>
  The functions a call of \<^verbatim>\<open>handlePhoneCall\<close> reaches return: each method the event
  has, and the hook if the debounce check passes and the hook is a function.
\<close>

definition event_methods_return :: "callees \<Rightarrow> dom_event option \<Rightarrow> bool" where
  "event_methods_return does e =
     (case e of
        None \<Rightarrow> True
      | Some ev \<Rightarrow>
          (preventDefault ev \<noteq> Function \<or> preventDefault_does does = Returns) \<and>
          (stopPropagation ev \<noteq> Function \<or> stopPropagation_does does = Returns))"

definition hook_call_returns :: "callee \<Rightarrow> int \<Rightarrow> window \<Rightarrow> bool" where
  "hook_call_returns hook_does currentTime w =
     (currentTime - getGlobalLastTrackTime w < 1000 \<or> fbq w \<noteq> Function \<or> hook_does = Returns)"

section \<open>Properties\<close>

subsection \<open>\<^verbatim>\<open>toFixed(2)\<close>\<close>

lemma toFixed_2_returns: "\<exists>shown. toFixed Number_toString x 2 = Inr shown"
  by (cases x) (simp_all add: toFixed_def Let_def)










lemma nearest_hundredth:
  fixes q :: rat
  shows "\<bar>of_nat (nat \<lfloor>\<bar>q\<bar> * 100 + 1 / 2\<rfloor>) / 100 - \<bar>q\<bar>\<bar> \<le> 1 / 200"
proof -
  define y where "y = \<bar>q\<bar> * 100 + 1 / 2"
  define n where "n = \<lfloor>y\<rfloor>"
  have "0 \<le> y" by (simp add: y_def)
  then have nn: "0 \<le> n" by (simp add: n_def)
  have lo: "of_int n \<le> y" and hi: "y < of_int n + 1" unfolding n_def by linarith+
  have eq: "(of_nat (nat n) :: rat) = of_int n" using nn by simp
  have q: "\<bar>q\<bar> = (y - 1 / 2) / 100" by (simp add: y_def)
  have "\<bar>of_int n / 100 - \<bar>q\<bar>\<bar> \<le> 1 / 200"
    unfolding q using lo hi by (simp add: abs_le_iff field_simps)
  then show ?thesis unfolding y_def [symmetric] n_def [symmetric] eq .
qed


lemma toFixed_default: "toFixed Number_toString (Finite 1) 2 = Inr (js ''1.00'')"
  by code_simp

subsection \<open>The three ways a call to the tracker can go\<close>

lemma getGlobalLastTrackTime_set [simp]:
  "getGlobalLastTrackTime (w\<lparr>lastContactTrackTime := Some t\<rparr>) = t"
  by (simp add: getGlobalLastTrackTime_def)

lemma getGlobalLastTrackTime_fbq [simp]:
  "getGlobalLastTrackTime (w\<lparr>fbq := h\<rparr>) = getGlobalLastTrackTime w"
  by (simp add: getGlobalLastTrackTime_def)

lemma getGlobalLastTrackTime_fresh [simp]: "getGlobalLastTrackTime (fresh_window h) = 0"
  by (simp add: getGlobalLastTrackTime_def fresh_window_def)

lemma fbq_fresh [simp]: "fbq (fresh_window h) = h"
  by (simp add: fresh_window_def)

lemma track_suppressed:
  "currentTime - getGlobalLastTrackTime w < 1000 \<Longrightarrow>
   trackContactEvent Number_toString currentTime va ca w =
     Inr (w, [ConsoleWarn (PreventedMsg (currentTime - getGlobalLastTrackTime w))])"
  by (simp add: trackContactEvent_def Let_def TRACK_DEBOUNCE_MS_def emit_def)

lemma track_no_hook:
  "1000 \<le> currentTime - getGlobalLastTrackTime w \<Longrightarrow> \<not> typeof_function (fbq w) \<Longrightarrow>
   trackContactEvent Number_toString currentTime va ca w = Inr (w, [ConsoleError FbqNotFoundMsg])"
  by (simp add: trackContactEvent_def Let_def TRACK_DEBOUNCE_MS_def emit_def)

lemma track_dispatched:
  "1000 \<le> currentTime - getGlobalLastTrackTime w \<Longrightarrow> typeof_function (fbq w) \<Longrightarrow>
   toFixed Number_toString (case va of None \<Rightarrow> Finite 1 | Some v \<Rightarrow> v) 2 = Inr shown \<Longrightarrow>
   trackContactEvent Number_toString currentTime va ca w =
     Inr (w\<lparr>lastContactTrackTime := Some currentTime\<rparr>,
          [ConsoleLog (ManualTrackMsg shown (case ca of None \<Rightarrow> js ''USD'' | Some c \<Rightarrow> c)),
           Fbq (js ''track'') (js ''Contact'')
             \<lparr>payload_value = shown,
              payload_currency = (case ca of None \<Rightarrow> js ''USD'' | Some c \<Rightarrow> c)\<rparr>])"
  by (simp add: trackContactEvent_def Let_def TRACK_DEBOUNCE_MS_def emit_def call_def seq_def
      setGlobalLastTrackTime_def typeof_function_def)

text \<open>Every call returns, and leaves one of three traces.\<close>

lemma track_cases:
  obtains
    (suppressed) "currentTime - getGlobalLastTrackTime w < 1000"
      "trackContactEvent Number_toString currentTime va ca w =
         Inr (w, [ConsoleWarn (PreventedMsg (currentTime - getGlobalLastTrackTime w))])"
  | (no_hook) "1000 \<le> currentTime - getGlobalLastTrackTime w" "\<not> typeof_function (fbq w)"
      "trackContactEvent Number_toString currentTime va ca w =
         Inr (w, [ConsoleError FbqNotFoundMsg])"
  | (dispatched) m p where "1000 \<le> currentTime - getGlobalLastTrackTime w"
      "typeof_function (fbq w)"
      "trackContactEvent Number_toString currentTime va ca w =
         Inr (w\<lparr>lastContactTrackTime := Some currentTime\<rparr>,
              [ConsoleLog m, Fbq (js ''track'') (js ''Contact'') p])"
proof (cases "currentTime - getGlobalLastTrackTime w < 1000")
  case True
  then show ?thesis using track_suppressed suppressed by blast
next
  case pass: False
  show ?thesis
  proof (cases "typeof_function (fbq w)")
    case True
    obtain shown where
      "toFixed Number_toString (case va of None \<Rightarrow> Finite 1 | Some v \<Rightarrow> v) 2 = Inr shown"
      using toFixed_2_returns by blast
    with pass True show ?thesis
      using track_dispatched [of currentTime w Number_toString va shown ca] dispatched by simp
  next
    case False
    with pass show ?thesis
      using track_no_hook [of currentTime w Number_toString va ca] no_hook by simp
  qed
qed

lemma track_returns:
  "\<exists>w' effs. trackContactEvent Number_toString currentTime va ca w = Inr (w', effs)"
  by (rule track_cases [of currentTime w Number_toString va ca]) blast+

lemma track_effects_shape:
  assumes "trackContactEvent Number_toString currentTime va ca w = Inr (w', effs)"
  shows "(\<exists>m. effs = [ConsoleWarn m]) \<or> (\<exists>m. effs = [ConsoleError m]) \<or>
         (\<exists>m p. effs = [ConsoleLog m, Fbq (js ''track'') (js ''Contact'') p])"
  by (rule track_cases [of currentTime w Number_toString va ca]) (use assms in auto)

lemma track_no_timer:
  assumes "trackContactEvent Number_toString currentTime va ca w = Inr (w', effs)"
  shows "filter is_timer effs = []"
  using track_effects_shape [OF assms] by auto

lemma track_window:
  assumes "trackContactEvent Number_toString currentTime va ca w = Inr (w', effs)"
  shows "(w' = w \<and> dispatches effs = []) \<or>
         (w' = w\<lparr>lastContactTrackTime := Some currentTime\<rparr> \<and>
          1000 \<le> currentTime - getGlobalLastTrackTime w \<and> typeof_function (fbq w) \<and>
          length (dispatches effs) = 1)"
  by (rule track_cases [of currentTime w Number_toString va ca])
     (use assms in \<open>auto simp: dispatches_def\<close>)

lemma track_defaults:
  "trackContactEvent Number_toString currentTime None None w =
   trackContactEvent Number_toString currentTime (Some (Finite 1)) (Some (js ''USD'')) w"
  by (simp add: trackContactEvent_def)

subsection \<open>The phone call\<close>

lemma replace_global_dialable:
  "replace_global phone_separators [] phoneNumber = dialable phoneNumber"
  by (induction phoneNumber) (auto simp: dialable_def class_matches_def phone_separators_def)

lemma handlePhoneCall_trace:
  assumes "trackContactEvent Number_toString currentTime None None w = Inr (w', tracking)"
  shows "handlePhoneCall Number_toString currentTime phoneNumber e w =
     Inr (w', [ConsoleLog (HandlePhoneCallMsg phoneNumber)] @ event_effects e @ tracking @
              [ConsoleLog (RedirectingMsg (replace_global phone_separators [] phoneNumber)),
               SetTimeout
                 (SetLocationHref (js ''tel:'' @ replace_global phone_separators [] phoneNumber))
                 100])"
  using assms
  by (cases e)
     (simp_all add: handlePhoneCall_def event_effects_def seq_def emit_def skip_def call_def
        typeof_function_def Let_def)

lemma event_effects_no_timer: "filter is_timer (event_effects e) = []"
  by (simp add: event_effects_def split: option.splits)

lemma event_effects_no_dispatch: "dispatches (event_effects e) = []"
  by (simp add: event_effects_def dispatches_def split: option.splits)

lemma handlePhoneCall_window:
  assumes "handlePhoneCall Number_toString currentTime phoneNumber e w = Inr (w', effs)"
  shows "\<exists>tracking. trackContactEvent Number_toString currentTime None None w = Inr (w', tracking) \<and>
           dispatches effs = dispatches tracking"
proof -
  obtain w2 tracking where
    t: "trackContactEvent Number_toString currentTime None None w = Inr (w2, tracking)"
    using track_returns by blast
  from handlePhoneCall_trace [OF t, of phoneNumber e] assms
  have "w2 = w'" and "dispatches effs = dispatches tracking"
    using event_effects_no_dispatch [of e] by (auto simp: dispatches_def)
  with t show ?thesis by blast
qed

text \<open>An invocation that is not guarded by the \<^verbatim>\<open>typeof\<close> test can throw.\<close>

lemma unguarded_call_throws: "call Undefined PreventDefault w = Inl TypeError"
  by (simp add: call_def)

lemma dialable_example: "dialable (js ''+1 (833) 549-4113'') = js ''+18335494113''"
  by code_simp

lemma tel_example: "js ''tel:'' @ js ''+18335494113'' = js ''tel:+18335494113''"
  by (simp add: js_def)

subsection \<open>The debugging helper and sequences of operations\<close>

lemma checkPixelStatus_eq:
  "checkPixelStatus w =
     Inr (js ''Check complete'', w,
          [ConsoleLog StatusHeaderMsg,
           ConsoleLog (FbqAvailableMsg (typeof_function (fbq w))),
           ConsoleLog (LastTrackTimeMsg (getGlobalLastTrackTime w)),
           ConsoleLog (GlobalGuardMsg (lastContactTrackTime w)),
           ConsoleLog StatusFooterMsg])"
  by (simp add: checkPixelStatus_def seq_def emit_def)

lemma perform_returns: "\<exists>w' effs. perform Number_toString op w = Inr (w', effs)"
proof (cases op)
  case (TrackContactEvent t va ca)
  then show ?thesis using track_returns by simp
next
  case (HandlePhoneCall t pn e)
  obtain w2 tracking where "trackContactEvent Number_toString t None None w = Inr (w2, tracking)"
    using track_returns by blast
  from handlePhoneCall_trace [OF this, of pn e] HandlePhoneCall show ?thesis by simp
next
  case CheckPixelStatus
  then show ?thesis by (simp add: checkPixelStatus_eq)
next
  case (TimerFires cb)
  then show ?thesis by (cases cb) simp
next
  case (PageSetsFbq hook)
  then show ?thesis by simp
qed

lemma perform_step:
  assumes "perform Number_toString op w = Inr (w', effs)"
  shows "getGlobalLastTrackTime w \<le> getGlobalLastTrackTime w' \<and>
         (lastContactTrackTime w' \<noteq> lastContactTrackTime w \<longrightarrow>
            length (dispatches effs) = 1 \<and> typeof_function (fbq w) \<and>
            1000 \<le> getGlobalLastTrackTime w' - getGlobalLastTrackTime w)"
proof (cases op)
  case (TrackContactEvent t va ca)
  with assms have "trackContactEvent Number_toString t va ca w = Inr (w', effs)" by simp
  from track_window [OF this] show ?thesis by auto
next
  case (HandlePhoneCall t pn e)
  with assms have "handlePhoneCall Number_toString t pn e w = Inr (w', effs)" by simp
  from handlePhoneCall_window [OF this] obtain tracking
    where t: "trackContactEvent Number_toString t None None w = Inr (w', tracking)"
      and d: "dispatches effs = dispatches tracking" by blast
  from track_window [OF t] d show ?thesis by auto
next
  case CheckPixelStatus
  with assms show ?thesis by (simp add: checkPixelStatus_eq)
next
  case (TimerFires cb)
  with assms show ?thesis by (cases cb) (auto simp: getGlobalLastTrackTime_def)
next
  case (PageSetsFbq hook)
  with assms show ?thesis by (auto simp: getGlobalLastTrackTime_def)
qed

lemma run_Nil [simp]: "run Number_toString [] w = Inr (w, [])"
  by (simp add: run_def)

lemma run_Cons:
  "run Number_toString (op # ops) w = seq (perform Number_toString op w) (run Number_toString ops)"
  by (simp add: run_def)

lemma run_monotone:
  "\<exists>w' effs. run Number_toString ops w = Inr (w', effs) \<and>
      getGlobalLastTrackTime w \<le> getGlobalLastTrackTime w'"
proof (induction ops arbitrary: w)
  case Nil
  show ?case by simp
next
  case (Cons op ops)
  obtain w1 effs1 where p: "perform Number_toString op w = Inr (w1, effs1)"
    using perform_returns by blast
  from Cons.IH [of w1] obtain w2 effs2 where r: "run Number_toString ops w1 = Inr (w2, effs2)"
    and m: "getGlobalLastTrackTime w1 \<le> getGlobalLastTrackTime w2" by blast
  from perform_step [OF p] have "getGlobalLastTrackTime w \<le> getGlobalLastTrackTime w1" by simp
  with m p r show ?case by (simp add: run_Cons seq_def)
qed

subsection \<open>Functions that throw\<close>

lemma track_with_suppressed:
  "currentTime - getGlobalLastTrackTime w < 1000 \<Longrightarrow>
   trackContactEvent_with hook_does Number_toString currentTime va ca w =
     (w, [ConsoleWarn (PreventedMsg (currentTime - getGlobalLastTrackTime w))], None)"
  by (simp add: trackContactEvent_with_def Let_def TRACK_DEBOUNCE_MS_def emit_step_def)

lemma track_with_no_hook:
  "1000 \<le> currentTime - getGlobalLastTrackTime w \<Longrightarrow> fbq w \<noteq> Function \<Longrightarrow>
   trackContactEvent_with hook_does Number_toString currentTime va ca w =
     (w, [ConsoleError FbqNotFoundMsg], None)"
  by (simp add: trackContactEvent_with_def Let_def TRACK_DEBOUNCE_MS_def emit_step_def
      typeof_function_def)

lemma track_with_called:
  "1000 \<le> currentTime - getGlobalLastTrackTime w \<Longrightarrow> fbq w = Function \<Longrightarrow>
   toFixed Number_toString (case va of None \<Rightarrow> Finite 1 | Some v \<Rightarrow> v) 2 = Inr shown \<Longrightarrow>
   trackContactEvent_with hook_does Number_toString currentTime va ca w =
     (case hook_does of
        Returns \<Rightarrow>
          (w\<lparr>lastContactTrackTime := Some currentTime\<rparr>,
           [ConsoleLog (ManualTrackMsg shown (case ca of None \<Rightarrow> js ''USD'' | Some c \<Rightarrow> c)),
            Fbq (js ''track'') (js ''Contact'')
              \<lparr>payload_value = shown,
               payload_currency = (case ca of None \<Rightarrow> js ''USD'' | Some c \<Rightarrow> c)\<rparr>],
           None)
      | Throws \<Rightarrow>
          (w,
           [ConsoleLog (ManualTrackMsg shown (case ca of None \<Rightarrow> js ''USD'' | Some c \<Rightarrow> c)),
            Fbq (js ''track'') (js ''Contact'')
              \<lparr>payload_value = shown,
               payload_currency = (case ca of None \<Rightarrow> js ''USD'' | Some c \<Rightarrow> c)\<rparr>],
           Some CalleeThrew))"
  by (cases hook_does)
     (simp_all add: trackContactEvent_with_def Let_def TRACK_DEBOUNCE_MS_def emit_step_def
        call_step_def seq_step_def setGlobalLastTrackTime_step_def typeof_function_def)

text \<open>
  A call to the tracker ends without an exception exactly when the hook, if it is called,
  returns; no timer is set by it; and when nothing is dispatched and nothing thrown, the
  console has the warning or the error.
\<close>

lemma track_with_ending:
  "\<exists>w' effs x.
     trackContactEvent_with hook_does Number_toString currentTime va ca w = (w', effs, x) \<and>
     (x = None \<longleftrightarrow> hook_call_returns hook_does currentTime w) \<and>
     (x = None \<or> x = Some CalleeThrew) \<and>
     filter is_timer effs = [] \<and>
     (x = None \<longrightarrow> dispatches effs = [] \<longrightarrow>
        (\<exists>m. effs = [ConsoleWarn m] \<or> effs = [ConsoleError m]))"
proof (cases "currentTime - getGlobalLastTrackTime w < 1000")
  case True
  then show ?thesis
    using track_with_suppressed [of currentTime w hook_does Number_toString va ca]
    by (simp add: hook_call_returns_def)
next
  case pass: False
  show ?thesis
  proof (cases "fbq w = Function")
    case False
    with pass show ?thesis
      using track_with_no_hook [of currentTime w hook_does Number_toString va ca]
      by (simp add: hook_call_returns_def)
  next
    case True
    obtain shown where
      "toFixed Number_toString (case va of None \<Rightarrow> Finite 1 | Some v \<Rightarrow> v) 2 = Inr shown"
      using toFixed_2_returns by blast
    with pass True show ?thesis
      using track_with_called [of currentTime w Number_toString va shown hook_does ca]
      by (cases hook_does) (simp_all add: hook_call_returns_def dispatches_def)
  qed
qed

text \<open>With a hook that returns, this is the call to the tracker as it was read before.\<close>

lemma track_with_Returns:
  assumes "trackContactEvent Number_toString currentTime va ca w = Inr (w', effs)"
  shows "trackContactEvent_with Returns Number_toString currentTime va ca w = (w', effs, None)"
proof (cases "currentTime - getGlobalLastTrackTime w < 1000")
  case True
  then show ?thesis
    using track_with_suppressed [of currentTime w Returns Number_toString va ca]
      track_suppressed [of currentTime w Number_toString va ca] assms
    by simp
next
  case pass: False
  show ?thesis
  proof (cases "fbq w = Function")
    case False
    with pass show ?thesis
      using track_with_no_hook [of currentTime w Returns Number_toString va ca]
        track_no_hook [of currentTime w Number_toString va ca] assms
      by (simp add: typeof_function_def)
  next
    case True
    obtain shown where
      "toFixed Number_toString (case va of None \<Rightarrow> Finite 1 | Some v \<Rightarrow> v) 2 = Inr shown"
      using toFixed_2_returns by blast
    with pass True show ?thesis
      using track_with_called [of currentTime w Number_toString va shown Returns ca]
        track_dispatched [of currentTime w Number_toString va shown ca] assms
      by (simp add: typeof_function_def)
  qed
qed

lemma handlePhoneCall_with_trace:
  assumes "event_methods_return does e"
    and "trackContactEvent_with (fbq_does does) Number_toString currentTime None None w =
           (w', tracking, x)"
  shows "handlePhoneCall_with does Number_toString currentTime phoneNumber e w =
     (case x of
        None \<Rightarrow>
          (w', [ConsoleLog (HandlePhoneCallMsg phoneNumber)] @ event_effects e @ tracking @
               [ConsoleLog (RedirectingMsg (replace_global phone_separators [] phoneNumber)),
                SetTimeout
                  (SetLocationHref (js ''tel:'' @ replace_global phone_separators [] phoneNumber))
                  100],
           None)
      | Some exn \<Rightarrow>
          (w', [ConsoleLog (HandlePhoneCallMsg phoneNumber)] @ event_effects e @ tracking,
           Some exn))"
  using assms
  by (cases e; cases x)
     (auto simp: handlePhoneCall_with_def event_methods_return_def event_effects_def
        seq_step_def emit_step_def skip_step_def call_step_def typeof_function_def Let_def)

lemma handlePhoneCall_with_event_throws:
  assumes "\<not> event_methods_return does e"
  shows "\<exists>effs. handlePhoneCall_with does Number_toString currentTime phoneNumber e w =
           (w, effs, Some CalleeThrew) \<and> filter is_timer effs = []"
  using assms
  by (cases e)
     (auto simp: handlePhoneCall_with_def event_methods_return_def
        seq_step_def emit_step_def skip_step_def call_step_def typeof_function_def Let_def
        split: callee.splits)

lemma handlePhoneCall_with_Returns:
  assumes "handlePhoneCall Number_toString currentTime phoneNumber e w = Inr (w', effs)"
  shows "handlePhoneCall_with
           \<lparr>fbq_does = Returns, preventDefault_does = Returns, stopPropagation_does = Returns\<rparr>
           Number_toString currentTime phoneNumber e w = (w', effs, None)"
proof -
  let ?does = "\<lparr>fbq_does = Returns, preventDefault_does = Returns, stopPropagation_does = Returns\<rparr>"
  obtain w1 tracking where
    t: "trackContactEvent Number_toString currentTime None None w = Inr (w1, tracking)"
    using track_returns by blast
  have m: "event_methods_return ?does e"
    by (simp add: event_methods_return_def split: option.splits)
  have "trackContactEvent_with (fbq_does ?does) Number_toString currentTime None None w =
      (w1, tracking, None)"
    using track_with_Returns [OF t] by simp
  from handlePhoneCall_with_trace [OF m this, of phoneNumber]
    handlePhoneCall_trace [OF t, of phoneNumber e] assms
  show ?thesis by simp
qed

section \<open>What the module guarantees\<close>

text \<open>
  C1. A call to the tracker made less than 1000 ms after LastTrackTime does nothing but
  log a warning: the hook is not called, and the window, LastTrackTime with it, is as it
  was.
\<close>

theorem debounce_suppresses_call:
  assumes "currentTime - getGlobalLastTrackTime w < 1000"
  shows "\<exists>w' effs.
     trackContactEvent Number_toString currentTime value_arg currency_arg w = Inr (w', effs) \<and>
     effs = [ConsoleWarn (PreventedMsg (currentTime - getGlobalLastTrackTime w))] \<and>
     dispatches effs = [] \<and>
     w' = w \<and> getGlobalLastTrackTime w' = getGlobalLastTrackTime w"
  using track_suppressed [OF assms] by (simp add: dispatches_def)

theorem debounce_suppresses_call_witness:
  "\<exists>w' effs.
     trackContactEvent (\<lambda>q. []) 1700000000400 (Some (Finite (5 / 2))) (Some (js ''EUR''))
       ((fresh_window Function)\<lparr>lastContactTrackTime := Some 1700000000000\<rparr>) = Inr (w', effs) \<and>
     effs = [ConsoleWarn (PreventedMsg 400)] \<and>
     dispatches effs = [] \<and>
     w' = (fresh_window Function)\<lparr>lastContactTrackTime := Some 1700000000000\<rparr> \<and>
     getGlobalLastTrackTime w' = 1700000000000"
  using debounce_suppresses_call
    [of 1700000000400 "(fresh_window Function)\<lparr>lastContactTrackTime := Some 1700000000000\<rparr>"
      "\<lambda>q. []" "Some (Finite (5 / 2))" "Some (js ''EUR'')"]
  by simp



text \<open>
  C3. When the debounce check passes and \<^verbatim>\<open>window.fbq\<close> is not a function, the
  call logs an error and nothing else: the hook is not called and the window, LastTrackTime
  with it, is as it was. So a later attempt, made once the hook is there, is not
  suppressed: it dispatches.
\<close>

theorem no_hook_leaves_state:
  assumes "1000 \<le> currentTime - getGlobalLastTrackTime w"
    and "\<not> typeof_function (fbq w)"
    and "currentTime \<le> later"
  shows "\<exists>w' effs w'' shown.
     trackContactEvent Number_toString currentTime value_arg currency_arg w = Inr (w', effs) \<and>
     effs = [ConsoleError FbqNotFoundMsg] \<and>
     dispatches effs = [] \<and>
     w' = w \<and> getGlobalLastTrackTime w' = getGlobalLastTrackTime w \<and>
     trackContactEvent Number_toString later (Some value) (Some currency) (w'\<lparr>fbq := Function\<rparr>) =
       Inr (w'', [ConsoleLog (ManualTrackMsg shown currency),
                  Fbq (js ''track'') (js ''Contact'')
                    \<lparr>payload_value = shown, payload_currency = currency\<rparr>])"
proof -
  obtain shown where s:
    "toFixed Number_toString (case Some value of None \<Rightarrow> Finite 1 | Some v \<Rightarrow> v) 2 = Inr shown"
    using toFixed_2_returns by blast
  have a: "1000 \<le> later - getGlobalLastTrackTime (w\<lparr>fbq := Function\<rparr>)"
    using assms(1,3) by simp
  have b: "typeof_function (fbq (w\<lparr>fbq := Function\<rparr>))"
    by (simp add: typeof_function_def)
  from track_dispatched [OF a b s, of "Some currency"] track_no_hook [OF assms(1,2)]
  show ?thesis by (simp add: dispatches_def)
qed

theorem no_hook_leaves_state_witness:
  "\<exists>w' effs w'' shown.
     trackContactEvent (\<lambda>q. []) 1700000000000 None None (fresh_window Undefined) = Inr (w', effs) \<and>
     effs = [ConsoleError FbqNotFoundMsg] \<and>
     dispatches effs = [] \<and>
     w' = fresh_window Undefined \<and> getGlobalLastTrackTime w' = 0 \<and>
     trackContactEvent (\<lambda>q. []) 1700000000200 (Some (Finite (5 / 2))) (Some (js ''EUR''))
         (w'\<lparr>fbq := Function\<rparr>) =
       Inr (w'', [ConsoleLog (ManualTrackMsg shown (js ''EUR'')),
                  Fbq (js ''track'') (js ''Contact'')
                    \<lparr>payload_value = shown, payload_currency = js ''EUR''\<rparr>])"
proof -
  have a: "1000 \<le> 1700000000000 - getGlobalLastTrackTime (fresh_window Undefined)"
    by simp
  have b: "\<not> typeof_function (fbq (fresh_window Undefined))"
    by (simp add: typeof_function_def)
  have c: "(1700000000000::int) \<le> 1700000000200"
    by simp
  from no_hook_leaves_state [OF a b c, of "\<lambda>q. []" None None "Finite (5 / 2)" "js ''EUR''"]
  show ?thesis by simp
qed

text \<open>
  C4. \<^verbatim>\<open>handlePhoneCall(phoneNumber, e)\<close> does its work in this order: the event's
  \<^verbatim>\<open>preventDefault\<close> and \<^verbatim>\<open>stopPropagation\<close>, each if the event is there and has
  it; then the whole call to the tracker, with the default value 1.00 and currency USD;
  then, last, the timer of 100 ms that sets the location to \<^verbatim>\<open>tel:\<close> and the dialable
  string. Whatever the tracker does comes before the timer is set.
\<close>

theorem handlePhoneCall_order:
  "\<exists>w' tracking.
     trackContactEvent Number_toString currentTime (Some (Finite 1)) (Some (js ''USD'')) w =
       Inr (w', tracking) \<and>
     handlePhoneCall Number_toString currentTime phoneNumber e w =
       Inr (w', [ConsoleLog (HandlePhoneCallMsg phoneNumber)] @
                event_effects e @
                tracking @
                [ConsoleLog (RedirectingMsg (dialable phoneNumber)),
                 SetTimeout (SetLocationHref (js ''tel:'' @ dialable phoneNumber)) 100])"
proof -
  obtain w' tracking where
    t: "trackContactEvent Number_toString currentTime None None w = Inr (w', tracking)"
    using track_returns by blast
  show ?thesis
    using handlePhoneCall_trace [OF t, of phoneNumber e] t
    by (simp add: replace_global_dialable track_defaults)
qed

theorem handlePhoneCall_order_witness:
  "\<exists>w' tracking.
     trackContactEvent (\<lambda>q. []) 1700000000000 (Some (Finite 1)) (Some (js ''USD''))
         (fresh_window Function) = Inr (w', tracking) \<and>
     handlePhoneCall (\<lambda>q. []) 1700000000000 (js ''+1 (833) 549-4113'')
         (Some \<lparr>preventDefault = Function, stopPropagation = Function\<rparr>) (fresh_window Function) =
       Inr (w', [ConsoleLog (HandlePhoneCallMsg (js ''+1 (833) 549-4113'')),
                 PreventDefault, StopPropagation] @
                tracking @
                [ConsoleLog (RedirectingMsg (js ''+18335494113'')),
                 SetTimeout (SetLocationHref (js ''tel:+18335494113'')) 100])"
  using handlePhoneCall_order
    [of "\<lambda>q. []" 1700000000000 "fresh_window Function" "js ''+1 (833) 549-4113''"
      "Some \<lparr>preventDefault = Function, stopPropagation = Function\<rparr>"]
  by (simp add: event_effects_def dialable_example tel_example)

text \<open>
  C5. The dialable string is the phone number without its whitespace and without every
  \<^verbatim>\<open>-\<close>, \<^verbatim>\<open>(\<close> and \<^verbatim>\<open>)\<close>, and the one timer \<^verbatim>\<open>handlePhoneCall\<close> sets goes to
  \<^verbatim>\<open>tel:\<close> followed by it; \<^verbatim>\<open>"+1 (833) 549-4113"\<close> goes to
  \<^verbatim>\<open>tel:+18335494113\<close>.
\<close>

theorem handlePhoneCall_dialable_target:
  "\<exists>w' effs.
     handlePhoneCall Number_toString currentTime phoneNumber e w = Inr (w', effs) \<and>
     filter is_timer effs =
       [SetTimeout (SetLocationHref (js ''tel:'' @ dialable phoneNumber)) 100]"
proof -
  obtain w' tracking where
    t: "trackContactEvent Number_toString currentTime None None w = Inr (w', tracking)"
    using track_returns by blast
  show ?thesis
    using handlePhoneCall_trace [OF t, of phoneNumber e] track_no_timer [OF t]
    by (simp add: event_effects_no_timer replace_global_dialable)
qed

theorem handlePhoneCall_dialable_target_witness:
  "\<exists>w' effs.
     handlePhoneCall (\<lambda>q. []) 1700000000000 (js ''+1 (833) 549-4113'') None (fresh_window Function)
       = Inr (w', effs) \<and>
     filter is_timer effs = [SetTimeout (SetLocationHref (js ''tel:+18335494113'')) 100]"
  using handlePhoneCall_dialable_target
    [of "\<lambda>q. []" 1700000000000 "js ''+1 (833) 549-4113''" None "fresh_window Function"]
  by (simp add: dialable_example tel_example)

text \<open>
  C6. In a sequence of calls to the tracker whose clock readings are each at
  least 1000 ms after the one before, the first at least 1000 ms after the stored
  LastTrackTime, a call made while \<^verbatim>\<open>window.fbq\<close> is a function dispatches exactly
  once, and a call made while it is not dispatches nothing.
\<close>

theorem spaced_calls_dispatch_once:
  assumes "spaced (map clock_then cs)"
    and "cs \<noteq> [] \<longrightarrow> 1000 \<le> clock_then (hd cs) - getGlobalLastTrackTime w"
  shows "\<exists>w' traces.
     tracker_calls Number_toString cs w = Inr (w', traces) \<and>
     dispatch_counts traces = map (\<lambda>c. if typeof_function (hook_then c) then 1 else 0) cs"
  using assms
proof (induction cs arbitrary: w)
  case Nil
  show ?case by (simp add: dispatch_counts_def)
next
  case (Cons c cs)
  let ?w = "w\<lparr>fbq := hook_then c\<rparr>"
  have pass: "1000 \<le> clock_then c - getGlobalLastTrackTime ?w"
    using Cons.prems(2) by simp
  obtain w1 effs where t:
    "trackContactEvent Number_toString (clock_then c) (value_given c) (currency_given c) ?w =
       Inr (w1, effs)"
    using track_returns by blast
  have "length (dispatches effs) = (if typeof_function (hook_then c) then 1 else 0) \<and>
        getGlobalLastTrackTime w1 \<le> clock_then c"
    by (rule track_cases
          [of "clock_then c" ?w Number_toString "value_given c" "currency_given c"])
       (use t pass in \<open>auto simp: dispatches_def\<close>)
  then have n: "length (dispatches effs) = (if typeof_function (hook_then c) then 1 else 0)"
    and le: "getGlobalLastTrackTime w1 \<le> clock_then c"
    by simp_all
  have sp: "spaced (map clock_then cs)"
    using Cons.prems(1) by (cases cs) simp_all
  have nx: "cs \<noteq> [] \<longrightarrow> 1000 \<le> clock_then (hd cs) - getGlobalLastTrackTime w1"
    using Cons.prems(1) le by (cases cs) auto
  from Cons.IH [OF sp nx] obtain w2 traces
    where r: "tracker_calls Number_toString cs w1 = Inr (w2, traces)"
      and dc: "dispatch_counts traces =
                 map (\<lambda>c. if typeof_function (hook_then c) then 1 else 0) cs"
    by blast
  from t r n dc show ?case by (simp add: dispatch_counts_def)
qed

theorem spaced_calls_dispatch_once_witness:
  "\<exists>w' traces.
     tracker_calls (\<lambda>q. [])
       [\<lparr>hook_then = Function, clock_then = 1700000000000,
         value_given = None, currency_given = None\<rparr>,
        \<lparr>hook_then = Undefined, clock_then = 1700000001000,
         value_given = Some (Finite (5 / 2)), currency_given = Some (js ''EUR'')\<rparr>,
        \<lparr>hook_then = Function, clock_then = 1700000002500,
         value_given = Some (Finite (5 / 2)), currency_given = Some (js ''EUR'')\<rparr>]
       (fresh_window Undefined) = Inr (w', traces) \<and>
     dispatch_counts traces = [1, 0, 1]"
  using spaced_calls_dispatch_once
    [of "[\<lparr>hook_then = Function, clock_then = 1700000000000,
           value_given = None, currency_given = None\<rparr>,
          \<lparr>hook_then = Undefined, clock_then = 1700000001000,
           value_given = Some (Finite (5 / 2)), currency_given = Some (js ''EUR'')\<rparr>,
          \<lparr>hook_then = Function, clock_then = 1700000002500,
           value_given = Some (Finite (5 / 2)), currency_given = Some (js ''EUR'')\<rparr>]"
      "fresh_window Undefined" "\<lambda>q. []"]
  by (simp add: typeof_function_def)

text \<open>
  Spacing alone is not enough, in two ways. One call, with the hook absent, is a sequence
  spaced as asked, and dispatches nothing. And one call, with the hook present, made while
  the clock reads less than 1000 on a page that has tracked nothing, is suppressed.
\<close>

theorem spaced_calls_counterexample:
  "spaced (map clock_then
      [\<lparr>hook_then = Undefined, clock_then = 1700000000000,
        value_given = None, currency_given = None\<rparr>]) \<and>
   tracker_calls (\<lambda>q. [])
      [\<lparr>hook_then = Undefined, clock_then = 1700000000000,
        value_given = None, currency_given = None\<rparr>]
      (fresh_window Undefined)
    = Inr (fresh_window Undefined, [[ConsoleError FbqNotFoundMsg]]) \<and>
   dispatch_counts [[ConsoleError FbqNotFoundMsg]] = [0] \<and>
   spaced (map clock_then
      [\<lparr>hook_then = Function, clock_then = 999,
        value_given = None, currency_given = None\<rparr>]) \<and>
   tracker_calls (\<lambda>q. [])
      [\<lparr>hook_then = Function, clock_then = 999,
        value_given = None, currency_given = None\<rparr>]
      (fresh_window Function)
    = Inr (fresh_window Function, [[ConsoleWarn (PreventedMsg 999)]]) \<and>
   dispatch_counts [[ConsoleWarn (PreventedMsg 999)]] = [0]"
  by code_simp

text \<open>
  C7. LastTrackTime reads 0 while nothing is stored; an operation changes what is stored
  only when it dispatches (exactly once, with the hook present and the debounce check
  passed, so the new reading is at least 1000 ms later); and over any sequence of
  operations the reading never goes down. The last part needs nothing of the clock: a
  reading that would go down is one the debounce check refuses.
\<close>

theorem lastTrackTime_monotone:
  "(lastContactTrackTime w0 = None \<longrightarrow> getGlobalLastTrackTime w0 = 0) \<and>
   (\<forall>w' effs. perform Number_toString op w = Inr (w', effs) \<longrightarrow>
        lastContactTrackTime w' \<noteq> lastContactTrackTime w \<longrightarrow>
        length (dispatches effs) = 1 \<and> typeof_function (fbq w) \<and>
        1000 \<le> getGlobalLastTrackTime w' - getGlobalLastTrackTime w) \<and>
   (\<exists>w' effs. run Number_toString ops w = Inr (w', effs) \<and>
        getGlobalLastTrackTime w \<le> getGlobalLastTrackTime w')"
  using perform_step [of Number_toString op w] run_monotone [of Number_toString ops w]
  by (simp add: getGlobalLastTrackTime_def)

lemma perform_example:
  "perform (\<lambda>q. []) (HandlePhoneCall 1700000000000 (js ''+1 (833) 549-4113'') None)
     (fresh_window Function) =
   Inr ((fresh_window Function)\<lparr>lastContactTrackTime := Some 1700000000000\<rparr>,
        [ConsoleLog (HandlePhoneCallMsg (js ''+1 (833) 549-4113'')),
         ConsoleLog (ManualTrackMsg (js ''1.00'') (js ''USD'')),
         Fbq (js ''track'') (js ''Contact'')
           \<lparr>payload_value = js ''1.00'', payload_currency = js ''USD''\<rparr>,
         ConsoleLog (RedirectingMsg (js ''+18335494113'')),
         SetTimeout (SetLocationHref (js ''tel:+18335494113'')) 100])"
  by code_simp

theorem lastTrackTime_monotone_witness:
  "getGlobalLastTrackTime (fresh_window Function) = 0 \<and>
   length (dispatches
     [ConsoleLog (HandlePhoneCallMsg (js ''+1 (833) 549-4113'')),
      ConsoleLog (ManualTrackMsg (js ''1.00'') (js ''USD'')),
      Fbq (js ''track'') (js ''Contact'')
        \<lparr>payload_value = js ''1.00'', payload_currency = js ''USD''\<rparr>,
      ConsoleLog (RedirectingMsg (js ''+18335494113'')),
      SetTimeout (SetLocationHref (js ''tel:+18335494113'')) 100]) = 1 \<and>
   (\<exists>w' effs.
      run (\<lambda>q. [])
        [HandlePhoneCall 1700000000000 (js ''+1 (833) 549-4113'') None,
         CheckPixelStatus,
         PageSetsFbq Undefined,
         TrackContactEvent 1700000000300 None None,
         TimerFires (SetLocationHref (js ''tel:+18335494113'')),
         TrackContactEvent 1600000000000 None None]
        (fresh_window Function) = Inr (w', effs) \<and>
      0 \<le> getGlobalLastTrackTime w')"
proof -
  let ?w = "fresh_window Function"
  let ?op = "HandlePhoneCall 1700000000000 (js ''+1 (833) 549-4113'') None"
  let ?ops = "[?op, CheckPixelStatus, PageSetsFbq Undefined,
               TrackContactEvent 1700000000300 None None,
               TimerFires (SetLocationHref (js ''tel:+18335494113'')),
               TrackContactEvent 1600000000000 None None]"
  have changed: "lastContactTrackTime (?w\<lparr>lastContactTrackTime := Some 1700000000000\<rparr>) \<noteq>
      lastContactTrackTime ?w"
    by (simp add: fresh_window_def)
  from lastTrackTime_monotone [of ?w "\<lambda>q. []" ?op ?w ?ops] perform_example changed
  show ?thesis by simp
qed

text \<open>
  C8. The public operations raise no exception of their own: whatever the arguments, the
  window and the event, and so for an event that lacks \<^verbatim>\<open>preventDefault\<close>,
  \<^verbatim>\<open>stopPropagation\<close> or both (\<open>unguarded_call_throws\<close> is what the two
  \<^verbatim>\<open>typeof\<close> tests avoid), the only exception that can leave
  \<^verbatim>\<open>trackContactEvent\<close> or \<^verbatim>\<open>handlePhoneCall\<close> is one thrown by a function they
  call, and \<^verbatim>\<open>checkPixelStatus\<close> always returns. When the functions they call return,
  they return, and a call to the tracker that does not dispatch says so on the console, as
  a warning or as an error.
\<close>

theorem operations_raise_nothing_of_their_own:
  "(\<exists>w' effs x.
      trackContactEvent_with hook_does Number_toString currentTime value_arg currency_arg w =
        (w', effs, x) \<and>
      (x = None \<or> x = Some CalleeThrew) \<and>
      (hook_call_returns hook_does currentTime w \<longrightarrow>
         x = None \<and>
         (dispatches effs = [] \<longrightarrow> (\<exists>m. effs = [ConsoleWarn m] \<or> effs = [ConsoleError m])))) \<and>
   (\<exists>w' effs x.
      handlePhoneCall_with does Number_toString currentTime phoneNumber e w = (w', effs, x) \<and>
      (x = None \<or> x = Some CalleeThrew) \<and>
      (event_methods_return does e \<longrightarrow> hook_call_returns (fbq_does does) currentTime w \<longrightarrow>
         x = None)) \<and>
   (\<exists>r w' effs. checkPixelStatus w = Inr (r, w', effs))"
proof -
  have a: "\<exists>w' effs x.
      trackContactEvent_with hook_does Number_toString currentTime value_arg currency_arg w =
        (w', effs, x) \<and>
      (x = None \<or> x = Some CalleeThrew) \<and>
      (hook_call_returns hook_does currentTime w \<longrightarrow>
         x = None \<and>
         (dispatches effs = [] \<longrightarrow> (\<exists>m. effs = [ConsoleWarn m] \<or> effs = [ConsoleError m])))"
    using track_with_ending [of hook_does Number_toString currentTime value_arg currency_arg w]
    by auto
  have b: "\<exists>w' effs x.
      handlePhoneCall_with does Number_toString currentTime phoneNumber e w = (w', effs, x) \<and>
      (x = None \<or> x = Some CalleeThrew) \<and>
      (event_methods_return does e \<longrightarrow> hook_call_returns (fbq_does does) currentTime w \<longrightarrow>
         x = None)"
  proof (cases "event_methods_return does e")
    case False
    then show ?thesis
      using handlePhoneCall_with_event_throws [of does e Number_toString currentTime phoneNumber w]
      by auto
  next
    case True
    obtain w1 tracking x where
      t: "trackContactEvent_with (fbq_does does) Number_toString currentTime None None w =
            (w1, tracking, x)"
      and r: "x = None \<longleftrightarrow> hook_call_returns (fbq_does does) currentTime w"
      and o: "x = None \<or> x = Some CalleeThrew"
      using track_with_ending [of "fbq_does does" Number_toString currentTime None None w]
      by blast
    from handlePhoneCall_with_trace [OF True t, of phoneNumber] r o show ?thesis
      by (cases x) auto
  qed
  have c: "\<exists>r w' effs. checkPixelStatus w = Inr (r, w', effs)"
    by (simp add: checkPixelStatus_eq)
  from a b c show ?thesis by blast
qed

theorem operations_raise_nothing_of_their_own_witness:
  "(\<exists>w' effs.
      trackContactEvent_with Throws (\<lambda>q. []) 1700000000000 (Some NaN) None
        (fresh_window NonFunction) = (w', effs, None)) \<and>
   (\<exists>w' effs.
      handlePhoneCall_with
        \<lparr>fbq_does = Returns, preventDefault_does = Throws, stopPropagation_does = Throws\<rparr>
        (\<lambda>q. []) 1700000000000 (js ''+1 (833) 549-4113'')
        (Some \<lparr>preventDefault = Undefined, stopPropagation = NonFunction\<rparr>)
        (fresh_window Function) = (w', effs, None)) \<and>
   (\<exists>r w' effs. checkPixelStatus (fresh_window NonFunction) = Inr (r, w', effs))"
proof -
  let ?does = "\<lparr>fbq_does = Returns, preventDefault_does = Throws, stopPropagation_does = Throws\<rparr>"
  let ?e = "Some \<lparr>preventDefault = Undefined, stopPropagation = NonFunction\<rparr>"
  have h1: "hook_call_returns Throws 1700000000000 (fresh_window NonFunction)"
    by (simp add: hook_call_returns_def)
  have h2: "event_methods_return ?does ?e"
    by (simp add: event_methods_return_def)
  have h3: "hook_call_returns (fbq_does ?does) 1700000000000 (fresh_window Function)"
    by (simp add: hook_call_returns_def)
  have c: "\<exists>r w' effs. checkPixelStatus (fresh_window NonFunction) = Inr (r, w', effs)"
    by (simp add: checkPixelStatus_eq)
  from operations_raise_nothing_of_their_own
    [of Throws "\<lambda>q. []" 1700000000000 "Some NaN" None "fresh_window NonFunction"]
    h1
  have a: "\<exists>w' effs.
      trackContactEvent_with Throws (\<lambda>q. []) 1700000000000 (Some NaN) None
        (fresh_window NonFunction) = (w', effs, None)"
    by blast
  from operations_raise_nothing_of_their_own
    [of Returns "\<lambda>q. []" 1700000000000 None None "fresh_window Function" ?does
      "js ''+1 (833) 549-4113''" ?e]
    h2 h3
  have b: "\<exists>w' effs.
      handlePhoneCall_with ?does (\<lambda>q. []) 1700000000000 (js ''+1 (833) 549-4113'') ?e
        (fresh_window Function) = (w', effs, None)"
    by blast
  from a b c show ?thesis by blast
qed

text \<open>
  A hook that is a function and throws: the exception leaves \<^verbatim>\<open>trackContactEvent\<close>,
  and leaves \<^verbatim>\<open>handlePhoneCall\<close> too, here with an event that has neither method.
  Nothing in the module catches it, and LastTrackTime is not written.
\<close>

theorem operations_throw_counterexample:
  "trackContactEvent_with Throws (\<lambda>q. []) 1700000000000 None None (fresh_window Function) =
     (fresh_window Function,
      [ConsoleLog (ManualTrackMsg (js ''1.00'') (js ''USD'')),
       Fbq (js ''track'') (js ''Contact'')
         \<lparr>payload_value = js ''1.00'', payload_currency = js ''USD''\<rparr>],
      Some CalleeThrew) \<and>
   handlePhoneCall_with
       \<lparr>fbq_does = Throws, preventDefault_does = Returns, stopPropagation_does = Returns\<rparr>
       (\<lambda>q. []) 1700000000000 (js ''+1 (833) 549-4113'')
       (Some \<lparr>preventDefault = Undefined, stopPropagation = Undefined\<rparr>)
       (fresh_window Function) =
     (fresh_window Function,
      [ConsoleLog (HandlePhoneCallMsg (js ''+1 (833) 549-4113'')),
       ConsoleLog (ManualTrackMsg (js ''1.00'') (js ''USD'')),
       Fbq (js ''track'') (js ''Contact'')
         \<lparr>payload_value = js ''1.00'', payload_currency = js ''USD''\<rparr>],
      Some CalleeThrew)"
  by code_simp

text \<open>
  C9. A call to \<^verbatim>\<open>handlePhoneCall\<close> in which the functions it calls return (the
  methods the event has, and the hook if it is called at all) sets the timer, once and as
  the last thing it does; so it does when the debounce check suppresses the dispatch and
  when there is no hook, whatever the hook would have done. The timer's callback, when it
  runs, sets the location to the \<^verbatim>\<open>tel:\<close> address.
\<close>

theorem navigation_scheduled_when_callees_return:
  assumes "event_methods_return does e"
    and "currentTime - getGlobalLastTrackTime w < 1000 \<or> fbq w \<noteq> Function \<or>
         fbq_does does = Returns"
  shows "\<exists>w' effs.
     handlePhoneCall_with does Number_toString currentTime phoneNumber e w = (w', effs, None) \<and>
     length (filter is_timer effs) = 1 \<and>
     last effs =
       SetTimeout (SetLocationHref (js ''tel:'' @ replace_global phone_separators [] phoneNumber))
         100 \<and>
     run_callback (SetLocationHref (js ''tel:'' @ replace_global phone_separators [] phoneNumber)) w' =
       Inr (w'\<lparr>location_href := js ''tel:'' @ replace_global phone_separators [] phoneNumber\<rparr>, [])"
proof -
  have h: "hook_call_returns (fbq_does does) currentTime w"
    using assms(2) by (simp add: hook_call_returns_def)
  obtain w' tracking x where
    t: "trackContactEvent_with (fbq_does does) Number_toString currentTime None None w =
          (w', tracking, x)"
    and r: "x = None \<longleftrightarrow> hook_call_returns (fbq_does does) currentTime w"
    and n: "filter is_timer tracking = []"
    using track_with_ending [of "fbq_does does" Number_toString currentTime None None w]
    by blast
  from r h have "x = None" by simp
  with handlePhoneCall_with_trace [OF assms(1) t, of phoneNumber] n show ?thesis
    by (simp add: event_effects_no_timer)
qed

theorem navigation_scheduled_when_callees_return_witness:
  "\<exists>w' effs.
     handlePhoneCall_with
       \<lparr>fbq_does = Throws, preventDefault_does = Returns, stopPropagation_does = Throws\<rparr>
       (\<lambda>q. []) 1700000000400 (js ''+1 (833) 549-4113'')
       (Some \<lparr>preventDefault = Function, stopPropagation = Undefined\<rparr>)
       ((fresh_window Function)\<lparr>lastContactTrackTime := Some 1700000000000\<rparr>) = (w', effs, None) \<and>
     length (filter is_timer effs) = 1 \<and>
     last effs = SetTimeout (SetLocationHref (js ''tel:+18335494113'')) 100 \<and>
     run_callback (SetLocationHref (js ''tel:+18335494113'')) w' =
       Inr (w'\<lparr>location_href := js ''tel:+18335494113''\<rparr>, [])"
proof -
  let ?does = "\<lparr>fbq_does = Throws, preventDefault_does = Returns, stopPropagation_does = Throws\<rparr>"
  let ?e = "Some \<lparr>preventDefault = Function, stopPropagation = Undefined\<rparr>"
  let ?w = "(fresh_window Function)\<lparr>lastContactTrackTime := Some 1700000000000\<rparr>"
  have a: "event_methods_return ?does ?e"
    by (simp add: event_methods_return_def)
  have b: "1700000000400 - getGlobalLastTrackTime ?w < 1000 \<or> fbq ?w \<noteq> Function \<or>
      fbq_does ?does = Returns"
    by simp
  from navigation_scheduled_when_callees_return
    [OF a b, of "\<lambda>q. []" "js ''+1 (833) 549-4113''"]
  show ?thesis
    by (simp add: replace_global_dialable dialable_example tel_example)
qed

text \<open>
  With the debounce check passed and a hook that is a function and throws, the call ends
  in the exception after the hook was called, and no timer was set.
\<close>

theorem navigation_not_scheduled_counterexample:
  "handlePhoneCall_with
       \<lparr>fbq_does = Throws, preventDefault_does = Returns, stopPropagation_does = Returns\<rparr>
       (\<lambda>q. []) 1700000000000 (js ''+1 (833) 549-4113'') None (fresh_window Function) =
     (fresh_window Function,
      [ConsoleLog (HandlePhoneCallMsg (js ''+1 (833) 549-4113'')),
       ConsoleLog (ManualTrackMsg (js ''1.00'') (js ''USD'')),
       Fbq (js ''track'') (js ''Contact'')
         \<lparr>payload_value = js ''1.00'', payload_currency = js ''USD''\<rparr>],
      Some CalleeThrew) \<and>
   filter is_timer
     [ConsoleLog (HandlePhoneCallMsg (js ''+1 (833) 549-4113'')),
      ConsoleLog (ManualTrackMsg (js ''1.00'') (js ''USD'')),
      Fbq (js ''track'') (js ''Contact'')
        \<lparr>payload_value = js ''1.00'', payload_currency = js ''USD''\<rparr>] = []"
  by code_simp

text \<open>
  C10. \<^verbatim>\<open>checkPixelStatus()\<close> returns the string \<^verbatim>\<open>"Check complete"\<close> and changes
  nothing: the window after the call is the window before it, and all it does is write
  five lines to the console.
\<close>

theorem checkPixelStatus_pure:
  "\<exists>effs.
     checkPixelStatus w = Inr (js ''Check complete'', w, effs) \<and>
     effs = [ConsoleLog StatusHeaderMsg,
             ConsoleLog (FbqAvailableMsg (typeof_function (fbq w))),
             ConsoleLog (LastTrackTimeMsg (getGlobalLastTrackTime w)),
             ConsoleLog (GlobalGuardMsg (lastContactTrackTime w)),
             ConsoleLog StatusFooterMsg] \<and>
     dispatches effs = [] \<and> filter is_timer effs = []"
  by (simp add: checkPixelStatus_eq dispatches_def)

theorem checkPixelStatus_pure_witness:
  "checkPixelStatus ((fresh_window Function)\<lparr>lastContactTrackTime := Some 1700000000000\<rparr>) =
     Inr (js ''Check complete'',
          (fresh_window Function)\<lparr>lastContactTrackTime := Some 1700000000000\<rparr>,
          [ConsoleLog StatusHeaderMsg,
           ConsoleLog (FbqAvailableMsg True),
           ConsoleLog (LastTrackTimeMsg 1700000000000),
           ConsoleLog (GlobalGuardMsg (Some 1700000000000)),
           ConsoleLog StatusFooterMsg])"
  using checkPixelStatus_pure
    [of "(fresh_window Function)\<lparr>lastContactTrackTime := Some 1700000000000\<rparr>"]
  by (simp add: typeof_function_def)

end
